theory Spec2Isabelle
  imports Complex_Main
begin

section \<open>The statement circuit (zk-proofs/verify\_compliance.circom)\<close>

text \<open>
  The circuit is compiled for the curve bn128 (the setup script runs
  \<^verbatim>\<open>snarkjs powersoftau new bn128 12\<close>), so every signal is an element of the scalar
  field of that curve. A signal is modelled as an \<open>int\<close> and every assignment
  reduces modulo the field prime, as the witness calculator does with the values of
  input.json (which may be negative decimal integers).
\<close>

definition bn128_prime :: int where
  "bn128_prime = 21888242871839275222246405745257275088548364400416034343698204186575808495617"

definition fe :: "int \<Rightarrow> int" where
  "fe x = x mod bn128_prime"

text \<open>
  input.json: the five private inputs and the public input. The same file feeds the
  circuit (values read as field elements) and the mock generator (values read as
  JavaScript strings), hence the type parameter.
\<close>

record 'a input_json =
  complianceStatusHash :: 'a
  gpsLatitude :: 'a
  gpsLongitude :: 'a
  farmerWalletHash :: 'a
  nonce :: 'a
  expectedComplianceHash :: 'a

datatype violation = StatusCheck | LatCheck | LngCheck

datatype error = ConstraintViolation violation

text \<open>
  The two templates the circuit includes from circomlib
  (node\_modules/circomlib/circuits/bitify.circom and comparators.circom):
  \<^verbatim>\<open>
  template Num2Bits(n) {
      signal input in;  signal output out[n];
      var lc1=0;  var e2=1;
      for (var i = 0; i<n; i++) {
          out[i] <-- (in >> i) & 1;
          out[i] * (out[i] -1 ) === 0;
          lc1 += out[i] * e2;
          e2 = e2+e2;
      }
      lc1 === in;
  }
  template LessThan(n) {
      assert(n <= 252);
      signal input in[2];  signal output out;
      component n2b = Num2Bits(n+1);
      n2b.in <== in[0]+ (1<<n) - in[1];
      out <== 1-n2b.out[n];
  }
  \<close>
  A failed \<open>===\<close> aborts witness generation: the result is \<open>None\<close>.
\<close>

definition Num2Bits :: "nat \<Rightarrow> int \<Rightarrow> int list option" where
  "Num2Bits n inp =
     (let out = map (\<lambda>i. (inp div 2 ^ i) mod 2) [0..<n];
          lc1 = fe (sum_list (map (\<lambda>i. out ! i * 2 ^ i) [0..<n]))
      in if list_all (\<lambda>b. fe (b * (b - 1)) = 0) out \<and> lc1 = inp
         then Some out else None)"

definition LessThan :: "nat \<Rightarrow> int \<Rightarrow> int \<Rightarrow> int option" where
  "LessThan n in0 in1 =
     (if 252 < n then None
      else case Num2Bits (n + 1) (fe (in0 + 2 ^ n - in1)) of
             None \<Rightarrow> None
           | Some out \<Rightarrow> Some (fe (1 - out ! n)))"

text \<open>
  The template VerifyCompliance, run as the witness generator runs it: the constraints in
  the order of the file, the first unsatisfied one aborting. \<open>Poseidon\<close> is the
  arity-5 hash of circomlib, a parameter of the model. The result is the output signal
  complianceCommitment.
\<close>

definition VerifyCompliance :: "(int list \<Rightarrow> int) \<Rightarrow> int input_json \<Rightarrow> error + int" where
  "VerifyCompliance Poseidon inp =
     (let statusCheck = fe (complianceStatusHash inp - expectedComplianceHash inp) in
      if statusCheck \<noteq> 0 then Inl (ConstraintViolation StatusCheck)
      else
        let shiftedLat = fe (gpsLatitude inp + 900000);
            shiftedLng = fe (gpsLongitude inp + 1800000)
        in if LessThan 21 shiftedLat 1800001 \<noteq> Some 1
           then Inl (ConstraintViolation LatCheck)
           else if LessThan 22 shiftedLng 3600001 \<noteq> Some 1
           then Inl (ConstraintViolation LngCheck)
           else Inr (Poseidon [fe (complianceStatusHash inp), fe (gpsLatitude inp),
                               fe (gpsLongitude inp), fe (farmerWalletHash inp),
                               fe (nonce inp)]))"

text \<open>
  \<^verbatim>\<open>component main {public [expectedComplianceHash]} = VerifyCompliance();\<close>
  The public signals of a satisfied circuit are the output followed by the public input.
\<close>

definition circuit_public_signals :: "(int list \<Rightarrow> int) \<Rightarrow> int input_json \<Rightarrow> error + int list" where
  "circuit_public_signals Poseidon inp =
     (case VerifyCompliance Poseidon inp of
        Inl e \<Rightarrow> Inl e
      | Inr complianceCommitment \<Rightarrow> Inr [complianceCommitment, fe (expectedComplianceHash inp)])"

text \<open>
  The reading of the three constraint groups in the words of the specification: the
  status hash equals the expected one, and the coordinates, read as signed fixed-point
  integers, lie in [-900000, 900000] and [-1800000, 1800000]. A field element above
  half the prime stands for a negative integer.
\<close>

definition signed_fe :: "int \<Rightarrow> int" where
  "signed_fe x = (if bn128_prime div 2 < fe x then fe x - bn128_prime else fe x)"

definition spec_status_equality :: "int input_json \<Rightarrow> bool" where
  "spec_status_equality inp = (fe (complianceStatusHash inp) = fe (expectedComplianceHash inp))"

definition spec_range_valid :: "int input_json \<Rightarrow> bool" where
  "spec_range_valid inp =
     (- 900000 \<le> signed_fe (gpsLatitude inp) \<and> signed_fe (gpsLatitude inp) \<le> 900000 \<and>
      - 1800000 \<le> signed_fe (gpsLongitude inp) \<and> signed_fe (gpsLongitude inp) \<le> 1800000)"

section \<open>The mock proof generator (zk-proofs/generate\_mock\_proof.js)\<close>

text \<open>
  The script reads input.json, checks the status hash, hashes the five private inputs
  joined by a bar, fills a Groth16-shaped proof and a verification key with random
  bytes, writes the three artifacts and verifies. The digest
  \<^verbatim>\<open>crypto.createHash("sha256").update(s).digest("hex")\<close> is the parameter
  \<open>sha256\<close>; the \<open>k\<close>-th call of
  \<^verbatim>\<open>crypto.randomBytes(32).toString("hex")\<close> returns \<open>randomBytes k\<close>.
\<close>

fun join :: "string \<Rightarrow> string list \<Rightarrow> string" where
  "join sep [] = []"
| "join sep [x] = x"
| "join sep (x # y # ys) = x @ sep @ join sep (y # ys)"

record groth16_proof =
  pi_a :: "string list"
  pi_b :: "string list list"
  pi_c :: "string list"
  protocol :: string
  curve :: string

record verification_key =
  vk_protocol :: string
  vk_curve :: string
  nPublic :: nat
  vk_alpha_1 :: "string list"
  vk_beta_2 :: "string list list"
  vk_gamma_2 :: "string list list"
  vk_delta_2 :: "string list list"
  IC :: "string list list"

text \<open>The constants of the script that are in scope at step 4.\<close>

record mock_state =
  input :: "string input_json"
  commitmentInput :: string
  commitment :: string
  mockProof :: groth16_proof
  publicSignals :: "string list"
  verificationKey :: verification_key

definition statusMatch :: "string input_json \<Rightarrow> bool" where
  "statusMatch inp = (complianceStatusHash inp = expectedComplianceHash inp)"

definition mock_commitmentInput :: "string input_json \<Rightarrow> string" where
  "mock_commitmentInput inp =
     join ''|'' [complianceStatusHash inp, gpsLatitude inp, gpsLongitude inp,
                 farmerWalletHash inp, nonce inp]"

definition mock_mockProof :: "(nat \<Rightarrow> string) \<Rightarrow> groth16_proof" where
  "mock_mockProof randomBytes =
     \<lparr>pi_a = [randomBytes 0, randomBytes 1, ''1''],
      pi_b = [[randomBytes 2, randomBytes 3], [randomBytes 4, randomBytes 5], [''1'', ''0'']],
      pi_c = [randomBytes 6, randomBytes 7, ''1''],
      protocol = ''groth16'',
      curve = ''bn128''\<rparr>"

definition mock_verificationKey :: "(nat \<Rightarrow> string) \<Rightarrow> verification_key" where
  "mock_verificationKey randomBytes =
     \<lparr>vk_protocol = ''groth16'',
      vk_curve = ''bn128'',
      nPublic = 2,
      vk_alpha_1 = [randomBytes 8, randomBytes 9, ''1''],
      vk_beta_2 = [[randomBytes 10, randomBytes 11], [randomBytes 12, randomBytes 13], [''1'', ''0'']],
      vk_gamma_2 = [[randomBytes 14, randomBytes 15], [randomBytes 16, randomBytes 17], [''1'', ''0'']],
      vk_delta_2 = [[randomBytes 18, randomBytes 19], [randomBytes 20, randomBytes 21], [''1'', ''0'']],
      IC = [[randomBytes 22, randomBytes 23, ''1''],
            [randomBytes 24, randomBytes 25, ''1''],
            [randomBytes 26, randomBytes 27, ''1'']]\<rparr>"

text \<open>Steps 2 and 3: the state the script has built when it starts verifying.\<close>

definition mock_artifacts :: "(string \<Rightarrow> string) \<Rightarrow> (nat \<Rightarrow> string) \<Rightarrow> string input_json \<Rightarrow> mock_state" where
  "mock_artifacts sha256 randomBytes inp =
     (let ci = mock_commitmentInput inp;
          c = sha256 ci
      in \<lparr>input = inp,
          commitmentInput = ci,
          commitment = c,
          mockProof = mock_mockProof randomBytes,
          publicSignals = [c, expectedComplianceHash inp],
          verificationKey = mock_verificationKey randomBytes\<rparr>)"

text \<open>
  Step 4:
  \<^verbatim>\<open>
  const recomputedCommitment = crypto.createHash("sha256").update(commitmentInput).digest("hex");
  const verified = recomputedCommitment === commitment;
  \<close>
\<close>

definition mock_verified :: "(string \<Rightarrow> string) \<Rightarrow> mock_state \<Rightarrow> bool" where
  "mock_verified sha256 st =
     (let recomputedCommitment = sha256 (commitmentInput st)
      in recomputedCommitment = commitment st)"

text \<open>
  The whole script. \<^verbatim>\<open>process.exit(1)\<close> on a status mismatch, before any artifact is
  written, is the error result; otherwise the artifacts and the verification result.
\<close>

definition generate_mock_proof ::
  "(string \<Rightarrow> string) \<Rightarrow> (nat \<Rightarrow> string) \<Rightarrow> string input_json \<Rightarrow> error + mock_state \<times> bool" where
  "generate_mock_proof sha256 randomBytes inp =
     (if \<not> statusMatch inp then Inl (ConstraintViolation StatusCheck)
      else let st = mock_artifacts sha256 randomBytes inp
           in Inr (st, mock_verified sha256 st))"

section \<open>The replay ledger\<close>

text \<open>
  Modelled from the spec: the replay ledger's \<open>redeem\<close>. The Anchor program whose
  verify\_and\_mint instruction creates the ProofRecord account (seeds \<open>proof\<close> and the
  commitment) is not among the sources; only the deployment guide names it. The
  specification: a mapping from commitment to a single redemption record, whose
  existence means the commitment has been redeemed; \<open>redeem\<close> is insert-if-absent and
  answers \<open>Ok\<close> or \<open>Error(AlreadyRedeemed)\<close>.
\<close>

datatype ReplayRecord = ReplayRecord

datatype ledger_state = Unseen | Redeemed

datatype ledger_error = AlreadyRedeemed

type_synonym 'c ledger = "'c \<rightharpoonup> ReplayRecord"

definition ledger_state_of :: "'c ledger \<Rightarrow> 'c \<Rightarrow> ledger_state" where
  "ledger_state_of L c = (case L c of None \<Rightarrow> Unseen | Some r \<Rightarrow> Redeemed)"

definition redeem :: "'c \<Rightarrow> 'c ledger \<Rightarrow> (ledger_error + unit) \<times> 'c ledger" where
  "redeem c L =
     (case L c of
        None \<Rightarrow> (Inr (), L(c \<mapsto> ReplayRecord))
      | Some r \<Rightarrow> (Inl AlreadyRedeemed, L))"

text \<open>A sequence of redemption attempts, one after the other.\<close>

fun redeem_all :: "'c list \<Rightarrow> 'c ledger \<Rightarrow> 'c ledger" where
  "redeem_all [] L = L"
| "redeem_all (c # cs) L = redeem_all cs (snd (redeem c L))"

section \<open>The submission handler of the capture preview (frontend)\<close>

text \<open>
  lib/mock-data.ts and the component CapturePreview. The timestamp of the mock result is
  the time the module was loaded, a parameter. A promise that rejects (fetch on a network
  error, \<^verbatim>\<open>res.json()\<close> on a body that is not JSON) throws at its \<^verbatim>\<open>await\<close>.
\<close>

datatype ComplianceStatus = COMPLIANT | VIOLATION | PENDING

record ComplianceDetails =
  burnt_soil_percentage :: real
  tilled_soil_percentage :: real
  vegetation_index :: real
  thermal_anomaly :: bool

record ComplianceResult =
  status :: "ComplianceStatus option"
  confidence :: real
  timestamp :: string
  details :: ComplianceDetails

definition USE_MOCK :: bool where
  "USE_MOCK = True"

definition MOCK_COMPLIANCE_RESULT :: "string \<Rightarrow> ComplianceResult" where
  "MOCK_COMPLIANCE_RESULT loaded =
     \<lparr>status = Some COMPLIANT,
      confidence = 0.94,
      timestamp = loaded,
      details = \<lparr>burnt_soil_percentage = 2.1,
                 tilled_soil_percentage = 89.4,
                 vegetation_index = 0.72,
                 thermal_anomaly = False\<rparr>\<rparr>"

datatype 'a awaited = Rejected | Resolved 'a

record CapturePreview_state =
  isSubmitting :: bool
  result :: "ComplianceResult option"

text \<open>
  \<open>handleSubmit\<close>, with the flag of lib/mock-data.ts as its first argument. The
  backend's answer is the outcome of \<^verbatim>\<open>fetch\<close> and, when that resolved, of
  \<^verbatim>\<open>res.json()\<close>. The \<^verbatim>\<open>catch\<close> block sets the mock result; the
  \<^verbatim>\<open>finally\<close> block clears the flag.
\<close>

definition handleSubmit ::
  "bool \<Rightarrow> string \<Rightarrow> ComplianceResult awaited awaited \<Rightarrow> CapturePreview_state \<Rightarrow> CapturePreview_state" where
  "handleSubmit use_mock loaded backend st =
     (let st1 = st\<lparr>isSubmitting := True\<rparr>;
          st2 = (if use_mock then st1\<lparr>result := Some (MOCK_COMPLIANCE_RESULT loaded)\<rparr>
                 else case backend of
                        Rejected \<Rightarrow> st1\<lparr>result := Some (MOCK_COMPLIANCE_RESULT loaded)\<rparr>
                      | Resolved res \<Rightarrow>
                          (case res of
                             Rejected \<Rightarrow> st1\<lparr>result := Some (MOCK_COMPLIANCE_RESULT loaded)\<rparr>
                           | Resolved json \<Rightarrow> st1\<lparr>result := Some json\<rparr>))
      in st2\<lparr>isSubmitting := False\<rparr>)"

section \<open>Sample parameters and inputs\<close>

text \<open>
  Every theorem below holds for any hash function and any random bytes. The closed
  instances need some: a sample stand-in for each parameter, and the sample input of the
  specification (latitude 28.6139, longitude 77.2090).
\<close>

definition sample_Poseidon :: "int list \<Rightarrow> int" where
  "sample_Poseidon xs = fe (sum_list xs)"

definition sample_sha256 :: "string \<Rightarrow> string" where
  "sample_sha256 s = rev s"

definition sample_randomBytes_a :: "nat \<Rightarrow> string" where
  "sample_randomBytes_a k = ''a1''"

definition sample_randomBytes_b :: "nat \<Rightarrow> string" where
  "sample_randomBytes_b k = ''b2''"

definition sample_witness :: "int input_json" where
  "sample_witness =
     \<lparr>complianceStatusHash = 7, gpsLatitude = 286139, gpsLongitude = 772090,
      farmerWalletHash = 11, nonce = 13, expectedComplianceHash = 7\<rparr>"

definition sample_input :: "string input_json" where
  "sample_input =
     \<lparr>complianceStatusHash = ''7'', gpsLatitude = ''286139'', gpsLongitude = ''772090'',
      farmerWalletHash = ''11'', nonce = ''13'', expectedComplianceHash = ''7''\<rparr>"

section \<open>Properties of the circuit\<close>

lemma bn128_prime_pos: "0 < bn128_prime"
  by (simp add: bn128_prime_def)

lemma fe_range: "0 \<le> fe x \<and> fe x < bn128_prime"
  using bn128_prime_pos by (simp add: fe_def)

lemma bits_nth: "map (\<lambda>i. (map f [0..<n]) ! i * (2::int) ^ i) [0..<n] = map (\<lambda>i. f i * 2 ^ i) [0..<n]"
  by (rule map_cong) auto

lemma bits_sum: "sum_list (map (\<lambda>i. ((x::int) div 2 ^ i) mod 2 * 2 ^ i) [0..<n]) = x mod 2 ^ n"
proof (induction n)
  case 0 then show ?case by simp
next
  case (Suc n)
  have "x mod 2 ^ Suc n = x mod (2 ^ n * 2)" by (simp add: mult.commute)
  also have "\<dots> = 2 ^ n * (x div 2 ^ n mod 2) + x mod 2 ^ n"
    by (rule zmod_zmult2_eq) simp
  finally show ?case using Suc by (simp add: mult.commute)
qed

lemma bits_boolean: "list_all (\<lambda>b. fe (b * (b - 1)) = 0) (map (\<lambda>i. ((x::int) div 2 ^ i) mod 2) [0..<n])"
proof -
  have "fe (b * (b - 1)) = 0" if "b = x div 2 ^ i mod 2" for b i
  proof -
    have "b = 0 \<or> b = 1" using that by auto
    then show ?thesis by (auto simp: fe_def)
  qed
  then show ?thesis by (simp add: list_all_iff)
qed

lemma fe_small: "0 \<le> x \<Longrightarrow> x < bn128_prime \<Longrightarrow> fe x = x"
  by (simp add: fe_def)

lemma pow2_lt_prime: "n \<le> 253 \<Longrightarrow> (2::int) ^ n < bn128_prime"
proof -
  assume "n \<le> 253"
  then have "(2::int) ^ n \<le> 2 ^ 253" by (intro power_increasing) auto
  also have "\<dots> < bn128_prime" by (simp add: bn128_prime_def)
  finally show ?thesis .
qed

lemma Num2Bits_eq:
  assumes "0 \<le> x" "n \<le> 253"
  shows "Num2Bits n x = (if x < 2 ^ n then Some (map (\<lambda>i. (x div 2 ^ i) mod 2) [0..<n]) else None)"
proof -
  have m: "0 \<le> x mod 2 ^ n" "x mod 2 ^ n < 2 ^ n" by simp_all
  have "fe (x mod 2 ^ n) = x mod 2 ^ n"
  proof (rule fe_small)
    show "0 \<le> x mod 2 ^ n" by simp
    have "x mod 2 ^ n < 2 ^ n" by simp
    also have "\<dots> < bn128_prime" by (rule pow2_lt_prime [OF assms(2)])
    finally show "x mod 2 ^ n < bn128_prime" .
  qed
  moreover have "x mod 2 ^ n = x \<longleftrightarrow> x < 2 ^ n"
    using assms(1) m by (metis mod_pos_pos_trivial)
  ultimately show ?thesis
    by (simp add: Num2Bits_def Let_def bits_nth bits_sum bits_boolean)
qed

lemma LessThan_eq:
  assumes "n \<le> 252"
  shows "LessThan n a b = (if fe (a + 2 ^ n - b) < 2 ^ (n + 1) then Some (if fe (a + 2 ^ n - b) < 2 ^ n then 1 else 0) else None)"
proof -
  define y where "y = fe (a + 2 ^ n - b)"
  have y0: "0 \<le> y" using fe_range by (simp add: y_def)
  have n1: "n + 1 \<le> 253" using assms by simp
  have bit: "y div 2 ^ n mod 2 = (if y < 2 ^ n then 0 else 1)" if "y < 2 ^ (n + 1)"
  proof (cases "y < 2 ^ n")
    case True then show ?thesis using y0 by (simp add: div_pos_pos_trivial)
  next
    case False
    have "y = 2 ^ n * 1 + (y - 2 ^ n)" by simp
    moreover have "0 \<le> y - 2 ^ n" "y - 2 ^ n < 2 ^ n" using False that by auto
    ultimately have "y div 2 ^ n = 1" by (rule int_div_pos_eq)
    then show ?thesis using False by simp
  qed
  have f1: "fe 1 = 1" "fe 0 = 0" by (simp_all add: fe_def bn128_prime_def)
  note N = Num2Bits_eq [OF y0 n1]
  show ?thesis
  proof (cases "y < 2 ^ (n + 1)")
    case False
    then show ?thesis using assms N by (simp add: LessThan_def y_def [symmetric])
  next
    case True
    have "map (\<lambda>i. y div 2 ^ i mod 2) [0..<n + 1] ! n = y div 2 ^ n mod 2"
      by (simp add: nth_append)
    then show ?thesis
      using True assms N bit [OF True] f1
      by (simp add: LessThan_def y_def [symmetric] del: upt_Suc)
  qed
qed


lemma fe_status: "fe (a - b) \<noteq> 0 \<longleftrightarrow> fe a \<noteq> fe b"
  by (simp add: fe_def mod_eq_dvd_iff dvd_eq_mod_eq_0)

lemma fe_signed: "fe (signed_fe x) = fe x"
  by (simp add: signed_fe_def fe_def)

lemma signed_fe_range: "- (bn128_prime div 2) \<le> signed_fe x \<and> signed_fe x \<le> bn128_prime div 2"
  using fe_range [of x] by (auto simp: signed_fe_def bn128_prime_def)

lemma fe_add_left: "fe (fe y + k) = fe (y + k)"
  by (simp add: fe_def mod_add_left_eq)

lemma fe_shift: "fe (fe (x + a) + b - c) = fe (signed_fe x + (a + b - c))"
proof -
  have "fe (fe (x + a) + b - c) = fe (fe (x + a) + (b - c))" by (simp add: algebra_simps)
  also have "\<dots> = fe (x + a + (b - c))" by (rule fe_add_left)
  also have "\<dots> = fe (x + (a + b - c))" by (simp add: algebra_simps)
  also have "\<dots> = fe (fe x + (a + b - c))" by (rule fe_add_left [symmetric])
  also have "\<dots> = fe (fe (signed_fe x) + (a + b - c))" by (simp only: fe_signed)
  also have "\<dots> = fe (signed_fe x + (a + b - c))" by (rule fe_add_left)
  finally show ?thesis .
qed

lemma fe_window:
  assumes "- (bn128_prime div 2) \<le> s" "s \<le> bn128_prime div 2" "0 \<le> d" "d \<le> 2 ^ 252" "0 \<le> m" "m \<le> 2 ^ 252"
  shows "fe (s + d) < m \<longleftrightarrow> - d \<le> s \<and> s < m - d"
proof (cases "0 \<le> s + d")
  case True
  have "s + d < bn128_prime" using assms by (simp add: bn128_prime_def)
  then have "fe (s + d) = s + d" using True by (simp add: fe_def)
  then show ?thesis using True by auto
next
  case False
  have "fe (s + d) = fe (s + d + bn128_prime)" by (simp add: fe_def)
  also have "\<dots> = s + d + bn128_prime"
    using assms False by (intro fe_small) (simp_all add: bn128_prime_def)
  finally have "fe (s + d) = s + d + bn128_prime" .
  then show ?thesis using False assms by (simp add: bn128_prime_def)
qed

lemma LessThan_accepts:
  assumes "n \<le> 252"
  shows "LessThan n a b = Some 1 \<longleftrightarrow> fe (a + 2 ^ n - b) < 2 ^ n"
proof -
  have "fe (a + 2 ^ n - b) < 2 ^ (n + 1)" if "fe (a + 2 ^ n - b) < 2 ^ n"
  proof -
    have "(2::int) ^ n \<le> 2 ^ (n + 1)" by simp
    with that show ?thesis by linarith
  qed
  then show ?thesis unfolding LessThan_eq [OF assms] by auto
qed

lemma latCheck_iff:
  "LessThan 21 (fe (lat + 900000)) 1800001 = Some 1 \<longleftrightarrow>
     - 1197151 \<le> signed_fe lat \<and> signed_fe lat \<le> 900000"
proof -
  have w: "fe (signed_fe lat + 1197151) < 2097152 \<longleftrightarrow> - 1197151 \<le> signed_fe lat \<and> signed_fe lat < 2097152 - 1197151"
    using signed_fe_range [of lat] by (intro fe_window) simp_all
  have "fe (fe (lat + 900000) + 2 ^ 21 - 1800001) = fe (signed_fe lat + 1197151)"
    using fe_shift [of lat 900000 "2 ^ 21" 1800001] by simp
  then have "LessThan 21 (fe (lat + 900000)) 1800001 = Some 1 \<longleftrightarrow>
      - 1197151 \<le> signed_fe lat \<and> signed_fe lat < 900001"
    using w by (simp add: LessThan_accepts)
  then show ?thesis by auto
qed

lemma lngCheck_iff:
  "LessThan 22 (fe (lng + 1800000)) 3600001 = Some 1 \<longleftrightarrow>
     - 2394303 \<le> signed_fe lng \<and> signed_fe lng \<le> 1800000"
proof -
  have w: "fe (signed_fe lng + 2394303) < 4194304 \<longleftrightarrow> - 2394303 \<le> signed_fe lng \<and> signed_fe lng < 4194304 - 2394303"
    using signed_fe_range [of lng] by (intro fe_window) simp_all
  have "fe (fe (lng + 1800000) + 2 ^ 22 - 3600001) = fe (signed_fe lng + 2394303)"
    using fe_shift [of lng 1800000 "2 ^ 22" 3600001] by simp
  then have "LessThan 22 (fe (lng + 1800000)) 3600001 = Some 1 \<longleftrightarrow>
      - 2394303 \<le> signed_fe lng \<and> signed_fe lng < 1800001"
    using w by (simp add: LessThan_accepts)
  then show ?thesis by auto
qed

text \<open>What the circuit accepts, in closed form.\<close>

lemma VerifyCompliance_eq:
  "VerifyCompliance Poseidon inp =
     (if fe (complianceStatusHash inp) \<noteq> fe (expectedComplianceHash inp)
      then Inl (ConstraintViolation StatusCheck)
      else if \<not> (- 1197151 \<le> signed_fe (gpsLatitude inp) \<and> signed_fe (gpsLatitude inp) \<le> 900000)
      then Inl (ConstraintViolation LatCheck)
      else if \<not> (- 2394303 \<le> signed_fe (gpsLongitude inp) \<and> signed_fe (gpsLongitude inp) \<le> 1800000)
      then Inl (ConstraintViolation LngCheck)
      else Inr (Poseidon [fe (complianceStatusHash inp), fe (gpsLatitude inp),
                          fe (gpsLongitude inp), fe (farmerWalletHash inp), fe (nonce inp)]))"
  unfolding VerifyCompliance_def Let_def fe_status latCheck_iff lngCheck_iff
  by simp

lemma signed_fe_small: "- (bn128_prime div 2) \<le> x \<Longrightarrow> x \<le> bn128_prime div 2 \<Longrightarrow> signed_fe x = x"
proof (cases "0 \<le> x")
  case True
  assume "x \<le> bn128_prime div 2"
  then have "fe x = x" using True by (intro fe_small) (simp_all add: bn128_prime_def)
  then show ?thesis using \<open>x \<le> bn128_prime div 2\<close> by (simp add: signed_fe_def)
next
  case False
  assume lo: "- (bn128_prime div 2) \<le> x"
  have "fe x = fe (x + bn128_prime)" by (simp add: fe_def)
  also have "\<dots> = x + bn128_prime"
    using lo False by (intro fe_small) (simp_all add: bn128_prime_def)
  finally show ?thesis using lo False by (simp add: signed_fe_def bn128_prime_def)
qed

lemma sample_witness_accepted:
  "VerifyCompliance Poseidon sample_witness = Inr (Poseidon [7, 286139, 772090, 11, 13])"
proof -
  have s: "signed_fe 286139 = 286139" "signed_fe 772090 = 772090"
    by (rule signed_fe_small; simp add: bn128_prime_def)+
  have f: "fe 7 = 7" "fe 286139 = 286139" "fe 772090 = 772090" "fe 11 = 11" "fe 13 = 13"
    by (simp_all add: fe_def bn128_prime_def)
  show ?thesis
    unfolding VerifyCompliance_eq by (simp add: sample_witness_def s f)
qed

text \<open>The two latitudes the specification names: 91.0 degrees fails, 89.9999 succeeds.\<close>

lemma latitude_910000_rejected:
  "VerifyCompliance Poseidon (sample_witness\<lparr>gpsLatitude := 910000\<rparr>) = Inl (ConstraintViolation LatCheck)"
proof -
  have "signed_fe 910000 = 910000" by (rule signed_fe_small; simp add: bn128_prime_def)
  then show ?thesis unfolding VerifyCompliance_eq by (simp add: sample_witness_def)
qed

lemma latitude_899999_accepted:
  "VerifyCompliance Poseidon (sample_witness\<lparr>gpsLatitude := 899999\<rparr>)
     = Inr (Poseidon [7, 899999, 772090, 11, 13])"
proof -
  have s: "signed_fe 899999 = 899999" "signed_fe 772090 = 772090"
    by (rule signed_fe_small; simp add: bn128_prime_def)+
  have f: "fe 7 = 7" "fe 899999 = 899999" "fe 772090 = 772090" "fe 11 = 11" "fe 13 = 13"
    by (simp_all add: fe_def bn128_prime_def)
  show ?thesis unfolding VerifyCompliance_eq by (simp add: sample_witness_def s f)
qed

text \<open>Every witness in the ranges of the specification satisfies the circuit.\<close>

lemma in_range_accepted:
  "spec_status_equality w \<Longrightarrow> spec_range_valid w \<Longrightarrow>
   VerifyCompliance Poseidon w =
     Inr (Poseidon [fe (complianceStatusHash w), fe (gpsLatitude w), fe (gpsLongitude w),
                    fe (farmerWalletHash w), fe (nonce w)])"
  unfolding VerifyCompliance_eq by (simp add: spec_status_equality_def spec_range_valid_def)

section \<open>Properties of the mock generator\<close>

lemma generate_mock_proof_Inr:
  "generate_mock_proof sha256 randomBytes j = Inr (st, v) \<longleftrightarrow>
     statusMatch j \<and> st = mock_artifacts sha256 randomBytes j \<and> v = True"
  by (auto simp: generate_mock_proof_def Let_def mock_verified_def mock_artifacts_def)

lemma mock_verified_artifacts: "mock_verified sha256 (mock_artifacts sha256 randomBytes j)"
  by (simp add: mock_verified_def mock_artifacts_def Let_def)

lemma commitment_artifacts:
  "commitment (mock_artifacts sha256 randomBytes j) = sha256 (mock_commitmentInput j)"
  by (simp add: mock_artifacts_def Let_def)

lemma sample_statusMatch: "statusMatch sample_input"
  by (simp add: statusMatch_def sample_input_def)

section \<open>The claims\<close>

text \<open>
  C1. A witness whose complianceStatusHash differs from the public expected hash is
  rejected: witness generation for the circuit aborts at the status constraint, and the
  mock generator exits with the error before writing any artifact, so that no run
  returns a proof (let alone one that verifies).
\<close>

theorem status_mismatch_rejected:
  "(fe (complianceStatusHash w) \<noteq> fe (expectedComplianceHash w) \<longrightarrow>
      VerifyCompliance Poseidon w = Inl (ConstraintViolation StatusCheck)) \<and>
   (complianceStatusHash j \<noteq> expectedComplianceHash j \<longrightarrow>
      generate_mock_proof sha256 randomBytes j = Inl (ConstraintViolation StatusCheck) \<and>
      (\<forall>st v. generate_mock_proof sha256 randomBytes j \<noteq> Inr (st, v)))"
  by (simp add: VerifyCompliance_eq generate_mock_proof_def statusMatch_def)

theorem status_mismatch_rejected_witness:
  "VerifyCompliance sample_Poseidon (sample_witness\<lparr>complianceStatusHash := 8\<rparr>)
     = Inl (ConstraintViolation StatusCheck) \<and>
   generate_mock_proof sample_sha256 sample_randomBytes_a (sample_input\<lparr>complianceStatusHash := ''8''\<rparr>)
     = Inl (ConstraintViolation StatusCheck)"
proof -
  have a: "fe (complianceStatusHash (sample_witness\<lparr>complianceStatusHash := 8\<rparr>))
      \<noteq> fe (expectedComplianceHash (sample_witness\<lparr>complianceStatusHash := 8\<rparr>))"
    by (simp add: sample_witness_def fe_def bn128_prime_def)
  have b: "complianceStatusHash (sample_input\<lparr>complianceStatusHash := ''8''\<rparr>)
      \<noteq> expectedComplianceHash (sample_input\<lparr>complianceStatusHash := ''8''\<rparr>)"
    by (simp add: sample_input_def)
  show ?thesis
    using status_mismatch_rejected
      [of "sample_witness\<lparr>complianceStatusHash := 8\<rparr>" sample_Poseidon
          "sample_input\<lparr>complianceStatusHash := ''8''\<rparr>" sample_sha256 sample_randomBytes_a]
      a b by blast
qed

text \<open>
  C2. The claim: the range checks are satisfied exactly when the coordinates are in
  range. The circuit at a latitude of -100 degrees (scaled -1000000, the field element
  \<open>bn128_prime - 1000000\<close>), which is outside [-900000, 900000]: both range checks pass
  and the circuit yields its commitment. \<open>LessThan(21)\<close> decomposes
  \<open>shiftedLat + 2^21 - 1800001\<close> into 22 bits and its inputs are not themselves
  bounded, so every latitude from -1197151 to 900000 passes (\<open>latCheck_iff\<close>), and
  every longitude from -2394303 to 1800000 (\<open>lngCheck_iff\<close>).
\<close>

theorem latitude_below_range_accepted:
  "\<not> spec_range_valid (sample_witness\<lparr>gpsLatitude := - 1000000\<rparr>) \<and>
   VerifyCompliance Poseidon (sample_witness\<lparr>gpsLatitude := - 1000000\<rparr>)
     = Inr (Poseidon [7, bn128_prime - 1000000, 772090, 11, 13])"
proof -
  have s: "signed_fe (- 1000000) = - 1000000" "signed_fe 772090 = 772090"
    by (rule signed_fe_small; simp add: bn128_prime_def)+
  have f: "fe 7 = 7" "fe (- 1000000) = bn128_prime - 1000000" "fe 772090 = 772090"
    "fe 11 = 11" "fe 13 = 13"
    by (simp_all add: fe_def bn128_prime_def)
  show ?thesis
    unfolding VerifyCompliance_eq by (simp add: sample_witness_def spec_range_valid_def s f)
qed

text \<open>
  C3. The commitment is the hash of exactly the five private inputs, in the order status
  hash, latitude, longitude, wallet hash, nonce: the arity-5 Poseidon hash in the circuit,
  the digest of the five values joined by a bar in the mock generator. It is a function
  of the witness alone: a second generation from the same input, whatever the random
  bytes, yields the same commitment.
\<close>

theorem commitment_is_hash_of_witness:
  "(VerifyCompliance Poseidon w = Inr c \<longrightarrow>
      c = Poseidon [fe (complianceStatusHash w), fe (gpsLatitude w), fe (gpsLongitude w),
                    fe (farmerWalletHash w), fe (nonce w)]) \<and>
   (generate_mock_proof sha256 randomBytes j = Inr (st, v) \<longrightarrow>
      commitment st = sha256 (join ''|'' [complianceStatusHash j, gpsLatitude j, gpsLongitude j,
                                          farmerWalletHash j, nonce j]) \<and>
      (\<forall>randomBytes'. \<exists>st' v'.
          generate_mock_proof sha256 randomBytes' j = Inr (st', v') \<and>
          commitment st' = commitment st))"
proof (intro conjI impI)
  assume "VerifyCompliance Poseidon w = Inr c"
  then show "c = Poseidon [fe (complianceStatusHash w), fe (gpsLatitude w), fe (gpsLongitude w),
                    fe (farmerWalletHash w), fe (nonce w)]"
    unfolding VerifyCompliance_eq by (simp split: if_splits)
next
  assume g: "generate_mock_proof sha256 randomBytes j = Inr (st, v)"
  then show "commitment st = sha256 (join ''|'' [complianceStatusHash j, gpsLatitude j, gpsLongitude j,
                                          farmerWalletHash j, nonce j])"
    by (simp add: generate_mock_proof_Inr commitment_artifacts mock_commitmentInput_def)
  show "\<forall>randomBytes'. \<exists>st' v'.
          generate_mock_proof sha256 randomBytes' j = Inr (st', v') \<and>
          commitment st' = commitment st"
    using g by (auto simp: generate_mock_proof_Inr commitment_artifacts)
qed

theorem commitment_is_hash_of_witness_witness:
  "VerifyCompliance sample_Poseidon sample_witness = Inr 1058260 \<and>
   1058260 = sample_Poseidon [fe 7, fe 286139, fe 772090, fe 11, fe 13] \<and>
   commitment (mock_artifacts sample_sha256 sample_randomBytes_a sample_input)
     = sample_sha256 ''7|286139|772090|11|13'' \<and>
   (\<exists>st' v'. generate_mock_proof sample_sha256 sample_randomBytes_b sample_input = Inr (st', v') \<and>
      commitment st' = commitment (mock_artifacts sample_sha256 sample_randomBytes_a sample_input))"
proof -
  have a: "VerifyCompliance sample_Poseidon sample_witness = Inr 1058260"
    by (simp add: sample_witness_accepted sample_Poseidon_def fe_def bn128_prime_def)
  have b: "generate_mock_proof sample_sha256 sample_randomBytes_a sample_input
      = Inr (mock_artifacts sample_sha256 sample_randomBytes_a sample_input, True)"
    by (simp add: generate_mock_proof_Inr sample_statusMatch)
  note t = commitment_is_hash_of_witness
      [of sample_Poseidon sample_witness 1058260 sample_sha256 sample_randomBytes_a sample_input
          "mock_artifacts sample_sha256 sample_randomBytes_a sample_input" True]
  from t a have c1: "1058260 = sample_Poseidon [fe 7, fe 286139, fe 772090, fe 11, fe 13]"
    by (simp add: sample_witness_def)
  from t b have c2: "commitment (mock_artifacts sample_sha256 sample_randomBytes_a sample_input)
      = sample_sha256 ''7|286139|772090|11|13''"
    by (simp add: sample_input_def)
  from t b have c3: "\<exists>st' v'. generate_mock_proof sample_sha256 sample_randomBytes_b sample_input = Inr (st', v') \<and>
      commitment st' = commitment (mock_artifacts sample_sha256 sample_randomBytes_a sample_input)"
    by blast
  from a c1 c2 c3 show ?thesis by blast
qed

text \<open>
  C4. Completeness: a witness that satisfies the constraint groups of the specification
  (status equality, coordinates in range; the commitment is the circuit's own output)
  passes witness generation for the circuit, and the mock generator, given equal status
  hashes, produces its artifacts and verifies them: the verification result is true.
\<close>

theorem completeness_roundtrip:
  "(spec_status_equality w \<and> spec_range_valid w \<longrightarrow>
      VerifyCompliance Poseidon w =
        Inr (Poseidon [fe (complianceStatusHash w), fe (gpsLatitude w), fe (gpsLongitude w),
                       fe (farmerWalletHash w), fe (nonce w)])) \<and>
   (complianceStatusHash j = expectedComplianceHash j \<longrightarrow>
      (\<exists>st. generate_mock_proof sha256 randomBytes j = Inr (st, True) \<and> mock_verified sha256 st))"
  by (simp add: in_range_accepted generate_mock_proof_Inr mock_verified_artifacts statusMatch_def)

theorem completeness_roundtrip_witness:
  "spec_status_equality sample_witness \<and> spec_range_valid sample_witness \<and>
   VerifyCompliance sample_Poseidon sample_witness = Inr 1058260 \<and>
   (\<exists>st. generate_mock_proof sample_sha256 sample_randomBytes_a sample_input = Inr (st, True) \<and>
      mock_verified sample_sha256 st)"
proof -
  have s: "signed_fe 286139 = 286139" "signed_fe 772090 = 772090"
    by (rule signed_fe_small; simp add: bn128_prime_def)+
  have a: "spec_status_equality sample_witness"
    by (simp add: spec_status_equality_def sample_witness_def)
  have b: "spec_range_valid sample_witness"
    by (simp add: spec_range_valid_def sample_witness_def s)
  have c: "complianceStatusHash sample_input = expectedComplianceHash sample_input"
    by (simp add: sample_input_def)
  have d: "sample_Poseidon [fe (complianceStatusHash sample_witness), fe (gpsLatitude sample_witness),
      fe (gpsLongitude sample_witness), fe (farmerWalletHash sample_witness), fe (nonce sample_witness)]
      = 1058260"
    by (simp add: sample_Poseidon_def sample_witness_def fe_def bn128_prime_def)
  show ?thesis
    using completeness_roundtrip
      [of sample_witness sample_Poseidon sample_input sample_sha256 sample_randomBytes_a] a b c d
    by simp
qed

text \<open>
  C8. The claim: no private witness value, the status hash among them, appears among
  the public signals. On the sample input the public signals of the circuit are
  [1058260, 7] and those of the mock generator end with the string 7: the second public
  signal is the expected hash, which the status constraint makes equal to the private
  complianceStatusHash.
\<close>

theorem status_hash_among_public_signals:
  "circuit_public_signals sample_Poseidon sample_witness = Inr [1058260, 7] \<and>
   fe (complianceStatusHash sample_witness) \<in> set [1058260, 7] \<and>
   generate_mock_proof sample_sha256 sample_randomBytes_a sample_input
     = Inr (mock_artifacts sample_sha256 sample_randomBytes_a sample_input, True) \<and>
   complianceStatusHash sample_input
     \<in> set (publicSignals (mock_artifacts sample_sha256 sample_randomBytes_a sample_input))"
proof -
  have a: "circuit_public_signals sample_Poseidon sample_witness = Inr [1058260, 7]"
    by (simp add: circuit_public_signals_def sample_witness_accepted sample_Poseidon_def)
       (simp add: sample_witness_def fe_def bn128_prime_def)
  have b: "fe (complianceStatusHash sample_witness) \<in> set [1058260, 7]"
    by (simp add: sample_witness_def fe_def bn128_prime_def)
  have c: "generate_mock_proof sample_sha256 sample_randomBytes_a sample_input
      = Inr (mock_artifacts sample_sha256 sample_randomBytes_a sample_input, True)"
    by (simp add: generate_mock_proof_Inr sample_statusMatch)
  have d: "complianceStatusHash sample_input
     \<in> set (publicSignals (mock_artifacts sample_sha256 sample_randomBytes_a sample_input))"
    by (simp add: mock_artifacts_def Let_def sample_input_def)
  from a b c d show ?thesis by blast
qed

text \<open>
  C8, as the code has it: the public signals are exactly two values, the commitment
  (the only output signal, the hash of the five private inputs) and the public input
  expectedComplianceHash; in every accepted run the latter equals the private
  complianceStatusHash. Coordinates, wallet hash and nonce enter only through the hash.
\<close>

theorem public_signals_are_commitment_and_expected_hash:
  "(circuit_public_signals Poseidon w = Inr ps \<longrightarrow>
      ps = [Poseidon [fe (complianceStatusHash w), fe (gpsLatitude w), fe (gpsLongitude w),
                      fe (farmerWalletHash w), fe (nonce w)],
            fe (expectedComplianceHash w)] \<and>
      fe (expectedComplianceHash w) = fe (complianceStatusHash w)) \<and>
   (generate_mock_proof sha256 randomBytes j = Inr (st, v) \<longrightarrow>
      publicSignals st
        = [sha256 (join ''|'' [complianceStatusHash j, gpsLatitude j, gpsLongitude j,
                               farmerWalletHash j, nonce j]),
           expectedComplianceHash j] \<and>
      expectedComplianceHash j = complianceStatusHash j)"
proof (intro conjI impI)
  assume a: "circuit_public_signals Poseidon w = Inr ps"
  then show "ps = [Poseidon [fe (complianceStatusHash w), fe (gpsLatitude w), fe (gpsLongitude w),
                      fe (farmerWalletHash w), fe (nonce w)], fe (expectedComplianceHash w)]"
    unfolding circuit_public_signals_def VerifyCompliance_eq by (auto split: if_splits)
  from a show "fe (expectedComplianceHash w) = fe (complianceStatusHash w)"
    unfolding circuit_public_signals_def VerifyCompliance_eq by (auto split: if_splits)
next
  assume g: "generate_mock_proof sha256 randomBytes j = Inr (st, v)"
  then show "publicSignals st
        = [sha256 (join ''|'' [complianceStatusHash j, gpsLatitude j, gpsLongitude j,
                               farmerWalletHash j, nonce j]), expectedComplianceHash j]"
    by (simp add: generate_mock_proof_Inr mock_artifacts_def Let_def mock_commitmentInput_def)
  from g show "expectedComplianceHash j = complianceStatusHash j"
    by (simp add: generate_mock_proof_Inr statusMatch_def)
qed

theorem public_signals_are_commitment_and_expected_hash_witness:
  "[1058260, 7] =
     [sample_Poseidon [fe (complianceStatusHash sample_witness), fe (gpsLatitude sample_witness),
        fe (gpsLongitude sample_witness), fe (farmerWalletHash sample_witness),
        fe (nonce sample_witness)], fe (expectedComplianceHash sample_witness)] \<and>
   publicSignals (mock_artifacts sample_sha256 sample_randomBytes_a sample_input)
     = [sample_sha256 (join ''|'' [complianceStatusHash sample_input, gpsLatitude sample_input,
          gpsLongitude sample_input, farmerWalletHash sample_input, nonce sample_input]),
        expectedComplianceHash sample_input]"
proof -
  have a: "circuit_public_signals sample_Poseidon sample_witness = Inr [1058260, 7]"
    by (simp add: circuit_public_signals_def sample_witness_accepted sample_Poseidon_def)
       (simp add: sample_witness_def fe_def bn128_prime_def)
  have c: "generate_mock_proof sample_sha256 sample_randomBytes_a sample_input
      = Inr (mock_artifacts sample_sha256 sample_randomBytes_a sample_input, True)"
    by (simp add: generate_mock_proof_Inr sample_statusMatch)
  from public_signals_are_commitment_and_expected_hash
      [of sample_Poseidon sample_witness "[1058260, 7]" sample_sha256 sample_randomBytes_a
          sample_input "mock_artifacts sample_sha256 sample_randomBytes_a sample_input" True] a c
  show ?thesis by blast
qed

text \<open>
  C9. In the mock generator the verification result does not depend on the proof object
  or the verification key: a run that reaches step 4 reports VALID, replacing the proof
  and the key in its state leaves the result unchanged, and two runs on the same input
  with different random bytes report the same outcome.
\<close>

theorem mock_verification_independent_of_proof_and_key:
  "(generate_mock_proof sha256 randomBytes1 j = Inr (st, v) \<longrightarrow>
      v = True \<and>
      mock_verified sha256 (st\<lparr>mockProof := pf, verificationKey := vk\<rparr>) = v) \<and>
   map_sum id snd (generate_mock_proof sha256 randomBytes1 j)
     = map_sum id snd (generate_mock_proof sha256 randomBytes2 j)"
  by (auto simp: generate_mock_proof_def Let_def mock_verified_def mock_artifacts_def)

theorem mock_verification_independent_of_proof_and_key_witness:
  "mock_verified sample_sha256
     ((mock_artifacts sample_sha256 sample_randomBytes_a sample_input)
        \<lparr>mockProof := mock_mockProof sample_randomBytes_b,
          verificationKey := mock_verificationKey sample_randomBytes_b\<rparr>) = True \<and>
   map_sum id snd (generate_mock_proof sample_sha256 sample_randomBytes_a sample_input)
     = map_sum id snd (generate_mock_proof sample_sha256 sample_randomBytes_b sample_input)"
proof -
  have g: "generate_mock_proof sample_sha256 sample_randomBytes_a sample_input
      = Inr (mock_artifacts sample_sha256 sample_randomBytes_a sample_input, True)"
    by (simp add: generate_mock_proof_Inr sample_statusMatch)
  from mock_verification_independent_of_proof_and_key
      [of sample_sha256 sample_randomBytes_a sample_input
          "mock_artifacts sample_sha256 sample_randomBytes_a sample_input" True
          "mock_verificationKey sample_randomBytes_b" "mock_mockProof sample_randomBytes_b"
          sample_randomBytes_b] g
  show ?thesis by blast
qed

text \<open>
  The handler as shipped (\<open>USE_MOCK\<close> is true) never calls the backend.
\<close>

lemma handleSubmit_shipped:
  "result (handleSubmit USE_MOCK loaded backend st) = Some (MOCK_COMPLIANCE_RESULT loaded)"
  by (simp add: handleSubmit_def USE_MOCK_def Let_def)

text \<open>
  C10. When the backend call fails (fetch rejects, or the body of the response is not
  JSON), the submission handler sets the displayed result to the hard-coded mock result,
  whose status is COMPLIANT and whose confidence is 0.94, and clears the submitting flag:
  the error path yields a compliant verdict, not an error state.
\<close>

theorem backend_failure_yields_mock_compliant:
  assumes "backend = Rejected \<or> backend = Resolved Rejected"
  shows "result (handleSubmit use_mock loaded backend st) = Some (MOCK_COMPLIANCE_RESULT loaded) \<and>
         status (MOCK_COMPLIANCE_RESULT loaded) = Some COMPLIANT \<and>
         confidence (MOCK_COMPLIANCE_RESULT loaded) = 0.94 \<and>
         isSubmitting (handleSubmit use_mock loaded backend st) = False"
  using assms by (auto simp: handleSubmit_def Let_def MOCK_COMPLIANCE_RESULT_def)

theorem backend_failure_yields_mock_compliant_witness:
  "result (handleSubmit False ''2026-01-01T00:00:00.000Z'' Rejected
             \<lparr>isSubmitting = False, result = None\<rparr>)
     = Some (MOCK_COMPLIANCE_RESULT ''2026-01-01T00:00:00.000Z'') \<and>
   result (handleSubmit False ''2026-01-01T00:00:00.000Z'' (Resolved Rejected)
             \<lparr>isSubmitting = False, result = None\<rparr>)
     = Some (MOCK_COMPLIANCE_RESULT ''2026-01-01T00:00:00.000Z'') \<and>
   status (MOCK_COMPLIANCE_RESULT ''2026-01-01T00:00:00.000Z'') = Some COMPLIANT"
  using backend_failure_yields_mock_compliant
      [of Rejected False "''2026-01-01T00:00:00.000Z''" "\<lparr>isSubmitting = False, result = None\<rparr>"]
    backend_failure_yields_mock_compliant
      [of "Resolved Rejected" False "''2026-01-01T00:00:00.000Z''" "\<lparr>isSubmitting = False, result = None\<rparr>"]
  by blast

section \<open>Properties of the replay ledger\<close>

lemma redeem_state:
  "ledger_state_of (snd (redeem c L)) d = (if d = c then Redeemed else ledger_state_of L d)"
  by (simp add: redeem_def ledger_state_of_def split: option.splits)

lemma redeem_result:
  "fst (redeem c L) = (if ledger_state_of L c = Unseen then Inr () else Inl AlreadyRedeemed)"
  by (simp add: redeem_def ledger_state_of_def split: option.splits)

lemma redeem_all_keeps_redeemed:
  "ledger_state_of L d = Redeemed \<Longrightarrow> ledger_state_of (redeem_all cs L) d = Redeemed"
  by (induction cs arbitrary: L) (simp_all add: redeem_state)

text \<open>
  C6. Replay once-only: the first redeem of an unseen commitment answers Ok and leaves it
  Redeemed; after any further sequence of redemption attempts it is still Redeemed and a
  redeem of it answers AlreadyRedeemed. A redeem changes the state of a commitment only
  from Unseen to Redeemed.
\<close>

theorem redeem_once_only:
  fixes L L' :: "'c ledger"
  assumes "ledger_state_of L c = Unseen"
  shows "fst (redeem c L) = Inr () \<and>
         ledger_state_of (snd (redeem c L)) c = Redeemed \<and>
         fst (redeem c (redeem_all cs (snd (redeem c L)))) = Inl AlreadyRedeemed \<and>
         ledger_state_of (redeem_all cs (snd (redeem c L))) c = Redeemed \<and>
         (ledger_state_of (snd (redeem c' L')) d = ledger_state_of L' d \<or>
          ledger_state_of L' d = Unseen \<and> ledger_state_of (snd (redeem c' L')) d = Redeemed)"
proof -
  have r: "ledger_state_of (snd (redeem c L)) c = Redeemed" by (simp add: redeem_state)
  then have k: "ledger_state_of (redeem_all cs (snd (redeem c L))) c = Redeemed"
    by (rule redeem_all_keeps_redeemed)
  have t: "ledger_state_of (snd (redeem c' L')) d = ledger_state_of L' d \<or>
          ledger_state_of L' d = Unseen \<and> ledger_state_of (snd (redeem c' L')) d = Redeemed"
    by (cases "ledger_state_of L' d") (simp_all add: redeem_state)
  from assms r k t show ?thesis by (simp add: redeem_result)
qed

theorem redeem_once_only_witness:
  "fst (redeem ''c1'' Map.empty) = Inr () \<and>
   fst (redeem ''c1'' (snd (redeem ''c1'' Map.empty))) = Inl AlreadyRedeemed \<and>
   fst (redeem ''c1'' (redeem_all [''c2'', ''c1''] (snd (redeem ''c1'' Map.empty)))) = Inl AlreadyRedeemed"
proof -
  have u: "ledger_state_of (Map.empty :: string ledger) ''c1'' = Unseen"
    by (simp add: ledger_state_of_def)
  from redeem_once_only [OF u, where cs = "[]" and c' = "''c1''" and L' = Map.empty and d = "''c1''"]
    redeem_once_only [OF u, where cs = "[''c2'', ''c1'']" and c' = "''c1''" and L' = Map.empty and d = "''c1''"]
  show ?thesis by simp
qed

end
